theory Spec2Isabelle
  imports Main "HOL-Library.Sublist"
begin

section \<open>JavaScript string primitives used by the application\<close>

text \<open>
  A JavaScript string is a sequence of UTF-16 code units. The model uses \<^typ>\<open>string\<close>,
  whose characters are the code units 0 to 255 (ASCII and Latin-1); within that range the
  functions below do what the JavaScript built-ins do. The characters that do not fit a
  string literal are named by their code.
\<close>

abbreviation BACKSLASH :: char where "BACKSLASH \<equiv> CHR 0x5C"
abbreviation DQUOTE :: char where "DQUOTE \<equiv> CHR 0x22"
abbreviation BACKTICK :: char where "BACKTICK \<equiv> CHR 0x60"
abbreviation DOLLAR :: char where "DOLLAR \<equiv> CHR 0x24"
abbreviation NEWLINE :: char where "NEWLINE \<equiv> CHR 0x0A"

text \<open>
  \<^verbatim>\<open>str.replace(/c/g, r)\<close> for a pattern that is one literal character: every occurrence of
  the character is replaced, left to right. None of the replacement strings of the source
  contains a replacement pattern (a dollar sign followed by another character), so the
  replacement text is inserted as it is.
\<close>

definition replaceAll :: "char \<Rightarrow> string \<Rightarrow> string \<Rightarrow> string" where
  "replaceAll c r s = concat (map (\<lambda>x. if x = c then r else [x]) s)"

text \<open>
  White space and line terminators of ECMAScript below code 256: TAB, LF, VT, FF, CR, SP and
  NBSP. \<^verbatim>\<open>String.prototype.trim\<close> removes them from both ends.
\<close>

definition isWhiteSpace :: "char \<Rightarrow> bool" where
  "isWhiteSpace c = ((of_char c :: nat) \<in> {9, 10, 11, 12, 13, 32, 160})"

definition trimStart :: "string \<Rightarrow> string" where
  "trimStart s = dropWhile isWhiteSpace s"

definition trimEnd :: "string \<Rightarrow> string" where
  "trimEnd s = rev (dropWhile isWhiteSpace (rev s))"

definition trim :: "string \<Rightarrow> string" where
  "trim s = trimEnd (trimStart s)"

text \<open>
  \<^verbatim>\<open>String.prototype.toLowerCase\<close> below code 256: the letters A to Z and the Latin-1 capitals
  (0xC0 to 0xDE, without the multiplication sign 0xD7) move up by 32, everything else stays.
\<close>

definition toLowerChar :: "char \<Rightarrow> char" where
  "toLowerChar c =
     (let n = (of_char c :: nat) in
      if (65 \<le> n \<and> n \<le> 90) \<or> (192 \<le> n \<and> n \<le> 222 \<and> n \<noteq> 215) then char_of (n + 32) else c)"

definition toLowerCase :: "string \<Rightarrow> string" where
  "toLowerCase s = map toLowerChar s"

text \<open>\<^verbatim>\<open>s.includes(t)\<close>: \<open>t\<close> occurs in \<open>s\<close> at some position.\<close>

fun includes_str :: "string \<Rightarrow> string \<Rightarrow> bool" where
  "includes_str [] t = (t = [])"
| "includes_str (c # cs) t = (prefix t (c # cs) \<or> includes_str cs t)"

text \<open>\<^verbatim>\<open>Array.prototype.join\<close> on an array of strings.\<close>

fun join :: "string \<Rightarrow> string list \<Rightarrow> string" where
  "join sep [] = []"
| "join sep [x] = x"
| "join sep (x # y # ys) = x @ sep @ join sep (y # ys)"

text \<open>
  Truthiness of an optional string, as in \<^verbatim>\<open>if (issue.originalContext)\<close>: \<^verbatim>\<open>undefined\<close> and
  the empty string are falsy.
\<close>

definition truthy :: "string option \<Rightarrow> bool" where
  "truthy v = (case v of None \<Rightarrow> False | Some s \<Rightarrow> s \<noteq> [])"


section \<open>The types of the application\<close>

text \<open>
  The interface \<^verbatim>\<open>ParsedIssue\<close> as it is declared: each field with its type and whether
  it is optional (\<^verbatim>\<open>?\<close>).
\<close>

datatype ts_type = TString | TStringArray

definition ParsedIssue_interface :: "(string \<times> ts_type \<times> bool) list" where
  "ParsedIssue_interface =
     [(''id'', TString, False),
      (''title'', TString, False),
      (''body'', TString, False),
      (''labels'', TStringArray, False),
      (''originalContext'', TString, True)]"

definition field_names :: "(string \<times> ts_type \<times> bool) list \<Rightarrow> string list" where
  "field_names decl = map fst decl"

text \<open>
  The issue objects at run time. They come from the service's JSON with an \<^verbatim>\<open>id\<close> added,
  and \<^verbatim>\<open>processParsedIssues\<close> reads \<^verbatim>\<open>issue.sender\<close> from them, a property of the response
  schema that the interface does not declare; the record has it, as an optional string.
  The field \<^verbatim>\<open>id\<close> is \<open>id_issue\<close> here, \<open>id\<close> being the identity function of HOL.
\<close>

record ParsedIssue =
  id_issue :: string
  title :: string
  body :: string
  labels :: "string list"
  originalContext :: "string option"
  sender :: "string option"

text \<open>
  Reading a property of an issue object gives a string, an array of strings, or
  \<^verbatim>\<open>undefined\<close>. An object conforms to a declaration when each declared field holds a value
  of its declared type, \<^verbatim>\<open>undefined\<close> being allowed for an optional field only.
\<close>

datatype js_value = JString string | JStringArray "string list" | JUndefined

definition property :: "ParsedIssue \<Rightarrow> string \<Rightarrow> js_value" where
  "property i n =
     (if n = ''id'' then JString (id_issue i)
      else if n = ''title'' then JString (title i)
      else if n = ''body'' then JString (body i)
      else if n = ''labels'' then JStringArray (labels i)
      else if n = ''originalContext''
      then (case originalContext i of None \<Rightarrow> JUndefined | Some s \<Rightarrow> JString s)
      else if n = ''sender''
      then (case sender i of None \<Rightarrow> JUndefined | Some s \<Rightarrow> JString s)
      else JUndefined)"

fun has_type :: "js_value \<Rightarrow> ts_type \<Rightarrow> bool \<Rightarrow> bool" where
  "has_type (JString s) TString opt = True"
| "has_type (JStringArray ss) TStringArray opt = True"
| "has_type JUndefined t opt = opt"
| "has_type v t opt = False"

definition conforms :: "ParsedIssue \<Rightarrow> (string \<times> ts_type \<times> bool) list \<Rightarrow> bool" where
  "conforms i decl = list_all (\<lambda>(n, t, opt). has_type (property i n) t opt) decl"

datatype ProcessingStatus = IDLE | ANALYZING | COMPLETE | ERROR

text \<open>The string value of each member of the enum.\<close>

fun ProcessingStatus_value :: "ProcessingStatus \<Rightarrow> string" where
  "ProcessingStatus_value IDLE = ''IDLE''"
| "ProcessingStatus_value ANALYZING = ''ANALYZING''"
| "ProcessingStatus_value COMPLETE = ''COMPLETE''"
| "ProcessingStatus_value ERROR = ''ERROR''"

record EmailContent =
  subject :: string
  body_email :: string


section \<open>CommandPreview: the command shown for one issue\<close>

definition labelFlag :: "string \<Rightarrow> string" where
  "labelFlag l = ''--label '' @ [DQUOTE] @ l @ [DQUOTE]"

text \<open>
  The local constants \<^verbatim>\<open>safeTitle\<close> and \<^verbatim>\<open>safeBody\<close> of \<^verbatim>\<open>generateCommand\<close>, as functions of
  the issue.
\<close>

definition generateCommand_safeTitle :: "ParsedIssue \<Rightarrow> string" where
  "generateCommand_safeTitle i = replaceAll DQUOTE [BACKSLASH, DQUOTE] (title i)"

definition generateCommand_safeBody :: "ParsedIssue \<Rightarrow> string" where
  "generateCommand_safeBody i =
     replaceAll BACKTICK [BACKSLASH, BACKTICK] (replaceAll DQUOTE [BACKSLASH, DQUOTE] (body i))"

definition generateCommand :: "ParsedIssue \<Rightarrow> string" where
  "generateCommand i =
     (let safeTitle = generateCommand_safeTitle i;
          safeBody = generateCommand_safeBody i;
          labelsStr = join '' '' (map labelFlag (labels i))
      in ''gh issue create --title '' @ [DQUOTE] @ safeTitle @ [DQUOTE] @
         '' --body '' @ [DQUOTE] @ safeBody @ [DQUOTE] @ '' '' @ labelsStr)"


section \<open>App: state, issue processing, handlers\<close>

record AppState =
  emailContent :: EmailContent
  issues :: "ParsedIssue list"
  status :: ProcessingStatus
  errorMsg :: "string option"

definition initialState :: AppState where
  "initialState =
     \<lparr>emailContent = \<lparr>subject = [], body_email = []\<rparr>, issues = [], status = IDLE,
      errorMsg = None\<rparr>"

text \<open>The callback that \<^verbatim>\<open>processParsedIssues\<close> maps over the raw issues.\<close>

definition contextSeparator :: string where
  "contextSeparator =
     [NEWLINE, NEWLINE] @ ''---'' @ [NEWLINE, NEWLINE] @
     ''**Original Context:**'' @ [NEWLINE] @ [NEWLINE] @ ''> ''"

definition processIssue :: "ParsedIssue \<Rightarrow> ParsedIssue" where
  "processIssue issue =
     (let lowerLabels = map toLowerCase (labels issue);
          prefix_str =
            (if list_ex (\<lambda>l. includes_str l ''bug'') lowerLabels then ''[Bug] ''
             else if list_ex (\<lambda>l. includes_str l ''feature'' \<or> includes_str l ''enhancement'') lowerLabels
             then ''[Feature] ''
             else []);
          title' = trim (prefix_str @ title issue);
          body' =
            (case originalContext issue of
               None \<Rightarrow> body issue
             | Some ctx \<Rightarrow>
                 if ctx = [] then body issue
                 else
                   (let senderPrefix =
                          (case sender issue of
                             None \<Rightarrow> []
                           | Some s \<Rightarrow>
                               if s \<noteq> [] \<and> s \<noteq> ''Unknown'' then ''From '' @ s @ '':'' @ [NEWLINE]
                               else [])
                    in (senderPrefix @ body issue) @ contextSeparator @ ctx))
      in issue\<lparr>title := title', body := body', originalContext := None\<rparr>)"

definition processParsedIssues :: "ParsedIssue list \<Rightarrow> ParsedIssue list" where
  "processParsedIssues rawIssues = map processIssue rawIssues"

text \<open>
  The service call. Its environment is the API key, what the remote call does (it rejects, or
  it resolves with a response whose text may be missing) and what \<^verbatim>\<open>JSON.parse\<close> followed by
  the assignment of fresh ids makes of a text (\<open>None\<close> when that throws). The call either
  throws or returns a list of issues.
\<close>

datatype api_response = Rejected | Resolved "string option"

datatype api_outcome = Throws | Returns "ParsedIssue list"

definition parseEmailToIssues ::
  "string option \<Rightarrow> api_response \<Rightarrow> (string \<Rightarrow> ParsedIssue list option) \<Rightarrow> api_outcome" where
  "parseEmailToIssues apiKey response parse =
     (if \<not> truthy apiKey then Throws
      else case response of
             Rejected \<Rightarrow> Throws
           | Resolved text \<Rightarrow>
               (case text of
                  None \<Rightarrow> Returns []
                | Some t \<Rightarrow>
                    if t = [] then Returns []
                    else (case parse t of None \<Rightarrow> Throws | Some rawIssues \<Rightarrow> Returns rawIssues)))"

text \<open>
  \<^verbatim>\<open>handleGenerate\<close> runs in two parts. The part before the \<^verbatim>\<open>await\<close> either returns at once
  (\<open>None\<close>: nothing is set and the service is not called) or sets the state and calls the
  service. The part after it runs when the call has settled.
\<close>

definition handleGenerate_begin :: "AppState \<Rightarrow> AppState option" where
  "handleGenerate_begin st =
     (if trim (subject (emailContent st)) = [] \<and> trim (body_email (emailContent st)) = [] then None
      else Some (st\<lparr>status := ANALYZING, errorMsg := None, issues := []\<rparr>))"

definition handleGenerate_settled :: "api_outcome \<Rightarrow> AppState \<Rightarrow> AppState" where
  "handleGenerate_settled outcome st =
     (case outcome of
        Returns rawIssues \<Rightarrow>
          if length rawIssues = 0
          then st\<lparr>errorMsg := Some ''No actionable requests found in the email content.'',
                  status := IDLE\<rparr>
          else st\<lparr>issues := processParsedIssues rawIssues, status := COMPLETE\<rparr>
      | Throws \<Rightarrow>
          st\<lparr>errorMsg := Some ''Failed to parse email. Please check your API key and try again.'',
             status := ERROR\<rparr>)"

text \<open>One whole run of \<^verbatim>\<open>handleGenerate\<close>, given how the service call settles.\<close>

definition handleGenerate :: "api_outcome \<Rightarrow> AppState \<Rightarrow> AppState" where
  "handleGenerate outcome st =
     (case handleGenerate_begin st of
        None \<Rightarrow> st
      | Some st1 \<Rightarrow> handleGenerate_settled outcome st1)"

definition handleUpdateIssue :: "ParsedIssue \<Rightarrow> AppState \<Rightarrow> AppState" where
  "handleUpdateIssue updated st =
     st\<lparr>issues := map (\<lambda>i. if id_issue i = id_issue updated then updated else i) (issues st)\<rparr>"

definition handleDeleteIssue :: "string \<Rightarrow> AppState \<Rightarrow> AppState" where
  "handleDeleteIssue d st =
     (let st1 = st\<lparr>issues := filter (\<lambda>i. id_issue i \<noteq> d) (issues st)\<rparr>
      in if length (issues st) \<le> 1 then st1\<lparr>status := IDLE\<rparr> else st1)"

definition escapeForShell :: "string \<Rightarrow> string" where
  "escapeForShell str =
     (if str = [] then []
      else replaceAll DOLLAR [BACKSLASH, DOLLAR]
            (replaceAll BACKTICK [BACKSLASH, BACKTICK]
              (replaceAll DQUOTE [BACKSLASH, DQUOTE]
                (replaceAll BACKSLASH [BACKSLASH, BACKSLASH] str))))"

text \<open>The command that \<^verbatim>\<open>copyAllCommands\<close> builds for one issue, and the text it copies.\<close>

definition copyAllCommand :: "ParsedIssue \<Rightarrow> string" where
  "copyAllCommand issue =
     (let safeTitle = escapeForShell (title issue);
          safeBody = escapeForShell (body issue);
          labelsStr = join '' '' (map labelFlag (labels issue))
      in ''gh issue create --title '' @ [DQUOTE] @ safeTitle @ [DQUOTE] @
         '' --body '' @ [DQUOTE] @ safeBody @ [DQUOTE] @ '' '' @ labelsStr)"

definition copyAllCommands :: "AppState \<Rightarrow> string" where
  "copyAllCommands st = join [NEWLINE] (map copyAllCommand (issues st))"


section \<open>What App renders\<close>

text \<open>
  The parts of the rendered page that depend on the state: whether the Generate button is
  disabled, whether the empty state is shown, the error panel (\<open>None\<close> when it is not
  rendered, otherwise the message it shows) and whether the results are shown.
\<close>

record View =
  generateDisabled :: bool
  emptyState :: bool
  errorPanel :: "string option option"
  resultsShown :: bool

definition render :: "AppState \<Rightarrow> View" where
  "render st =
     \<lparr>generateDisabled =
        (status st = ANALYZING \<or>
         (subject (emailContent st) = [] \<and> body_email (emailContent st) = [])),
      emptyState = (status st = IDLE \<and> issues st = []),
      errorPanel = (if status st = ERROR then Some (errorMsg st) else None),
      resultsShown = (length (issues st) > 0)\<rparr>"

text \<open>The error message the user sees, if any.\<close>

definition displayedError :: "AppState \<Rightarrow> string option" where
  "displayedError st = (case errorPanel (render st) of None \<Rightarrow> None | Some m \<Rightarrow> m)"


section \<open>The application as a transition system\<close>

text \<open>
  The state of the page together with the number of service calls that have been started and
  have not settled yet. Each event is one handler run to its end (for \<^verbatim>\<open>handleGenerate\<close>, to
  its \<^verbatim>\<open>await\<close>), followed by a render; an event can fire only when the control it belongs to
  is rendered and enabled. \<open>fire\<close> gives \<open>None\<close> for an event that cannot happen in a state.
  \<open>CardLocal\<close> stands for the events of an issue card that touch the card's own state only
  (opening the editor, typing in it, Cancel, copying the command). \<open>SaveChanges\<close> and
  \<open>ClickRemove\<close> belong to the card of a listed issue; the editor cannot change the id.
\<close>

record System =
  app :: AppState
  pending :: nat

datatype event =
    ChangeSubject string
  | ChangeBody string
  | ClickGenerate
  | CallSettles api_outcome
  | ClickTryAgain
  | ClickClear
  | ClickCopyAll
  | CardLocal
  | SaveChanges ParsedIssue
  | ClickRemove string

definition initialSystem :: System where
  "initialSystem = \<lparr>app = initialState, pending = 0\<rparr>"

fun fire :: "event \<Rightarrow> System \<Rightarrow> System option" where
  "fire (ChangeSubject s) sys =
     Some (sys\<lparr>app := (app sys)\<lparr>emailContent := (emailContent (app sys))\<lparr>subject := s\<rparr>\<rparr>\<rparr>)"
| "fire (ChangeBody s) sys =
     Some (sys\<lparr>app := (app sys)\<lparr>emailContent := (emailContent (app sys))\<lparr>body_email := s\<rparr>\<rparr>\<rparr>)"
| "fire ClickGenerate sys =
     (if generateDisabled (render (app sys)) then None
      else case handleGenerate_begin (app sys) of
             None \<Rightarrow> Some sys
           | Some st1 \<Rightarrow> Some (sys\<lparr>app := st1, pending := pending sys + 1\<rparr>))"
| "fire (CallSettles outcome) sys =
     (if pending sys = 0 then None
      else Some (sys\<lparr>app := handleGenerate_settled outcome (app sys), pending := pending sys - 1\<rparr>))"
| "fire ClickTryAgain sys =
     (if errorPanel (render (app sys)) = None then None
      else Some (sys\<lparr>app := (app sys)\<lparr>status := IDLE\<rparr>\<rparr>))"
| "fire ClickClear sys =
     (if resultsShown (render (app sys)) then Some (sys\<lparr>app := (app sys)\<lparr>issues := []\<rparr>\<rparr>)
      else None)"
| "fire ClickCopyAll sys =
     (if resultsShown (render (app sys)) then Some sys else None)"
| "fire CardLocal sys =
     (if resultsShown (render (app sys)) then Some sys else None)"
| "fire (SaveChanges updated) sys =
     (if id_issue updated \<in> set (map id_issue (issues (app sys)))
      then Some (sys\<lparr>app := handleUpdateIssue updated (app sys)\<rparr>)
      else None)"
| "fire (ClickRemove d) sys =
     (if d \<in> set (map id_issue (issues (app sys)))
      then Some (sys\<lparr>app := handleDeleteIssue d (app sys)\<rparr>)
      else None)"

fun run :: "event list \<Rightarrow> System \<Rightarrow> System option" where
  "run [] sys = Some sys"
| "run (e # es) sys = (case fire e sys of None \<Rightarrow> None | Some sys' \<Rightarrow> run es sys')"

definition reachable :: "System \<Rightarrow> bool" where
  "reachable sys = (\<exists>es. run es initialSystem = Some sys)"

text \<open>A step starts a service call when it leaves one more call unsettled.\<close>

definition startsCall :: "System \<Rightarrow> System \<Rightarrow> bool" where
  "startsCall sys sys' = (pending sys' > pending sys)"


section \<open>Notions used in the statements\<close>

text \<open>The map on characters that the four replacements of \<^verbatim>\<open>escapeForShell\<close> realise.\<close>

definition escape_char :: "char \<Rightarrow> string" where
  "escape_char c =
     (if c = BACKSLASH then [BACKSLASH, BACKSLASH]
      else if c = DQUOTE then [BACKSLASH, DQUOTE]
      else if c = BACKTICK then [BACKSLASH, BACKTICK]
      else if c = DOLLAR then [BACKSLASH, DOLLAR]
      else [c])"

text \<open>
  A string with each backslash, double quote, backtick and dollar sign preceded by a
  backslash.
\<close>

definition escaped :: "string \<Rightarrow> string" where
  "escaped s = concat (map escape_char s)"

text \<open>
  The form of a command: the fixed text, the title and the body between double quotes, and one
  flag for each label, in the order of the list, with one space between two flags.
\<close>

fun label_flags :: "string list \<Rightarrow> string" where
  "label_flags [] = []"
| "label_flags [l] = ''--label '' @ [DQUOTE] @ l @ [DQUOTE]"
| "label_flags (l # m # ls) = ''--label '' @ [DQUOTE] @ l @ [DQUOTE] @ '' '' @ label_flags (m # ls)"

definition command_form :: "string \<Rightarrow> string \<Rightarrow> string list \<Rightarrow> string" where
  "command_form t b ls =
     ''gh issue create --title '' @ [DQUOTE] @ t @ [DQUOTE] @
     '' --body '' @ [DQUOTE] @ b @ [DQUOTE] @ '' '' @ label_flags ls"

text \<open>A label contains a word case-insensitively.\<close>

definition contains_ci :: "string \<Rightarrow> string \<Rightarrow> bool" where
  "contains_ci l w = sublist (toLowerCase w) (toLowerCase l)"

text \<open>The prefix that the labels of an issue select.\<close>

definition title_prefix :: "string list \<Rightarrow> string" where
  "title_prefix ls =
     (if \<exists>l \<in> set ls. contains_ci l ''bug'' then ''[Bug] ''
      else if \<exists>l \<in> set ls. contains_ci l ''feature'' \<or> contains_ci l ''enhancement''
      then ''[Feature] ''
      else [])"

text \<open>
  The sender line put in front of a merged body: present when the sender is given, is not
  empty and is not \<^verbatim>\<open>Unknown\<close>.
\<close>

definition sender_prefix :: "string option \<Rightarrow> string" where
  "sender_prefix s =
     (case s of
        None \<Rightarrow> []
      | Some n \<Rightarrow> if n = [] \<or> n = ''Unknown'' then [] else ''From '' @ n @ '':\<newline>'')"

text \<open>
  The invariant of the transition system: at most one call is unsettled, and a call is
  unsettled exactly while the status is \<^verbatim>\<open>ANALYZING\<close>, when no issue is listed.
\<close>

definition single_call_inv :: "System \<Rightarrow> bool" where
  "single_call_inv sys =
     (pending sys \<le> 1 \<and>
      (pending sys = 1 \<longrightarrow> status (app sys) = ANALYZING \<and> issues (app sys) = []) \<and>
      (status (app sys) = ANALYZING \<longrightarrow> pending sys = 1))"

text \<open>Inputs at which the statements are evaluated.\<close>

definition dollarIssue :: ParsedIssue where
  "dollarIssue =
     \<lparr>id_issue = ''1'', title = ''$'', body = [], labels = [''$''], originalContext = None,
      sender = None\<rparr>"

definition homeIssue :: ParsedIssue where
  "homeIssue =
     \<lparr>id_issue = ''2'', title = ''$HOME'', body = ''x'', labels = [''bug''],
      originalContext = None, sender = None\<rparr>"

definition untitledBug :: ParsedIssue where
  "untitledBug =
     \<lparr>id_issue = ''1'', title = [], body = [], labels = [''bug''], originalContext = None,
      sender = None\<rparr>"

definition loginBug :: ParsedIssue where
  "loginBug =
     \<lparr>id_issue = ''7'', title = ''Fix login'', body = ''b'', labels = [''Bug''],
      originalContext = Some ''q'', sender = Some ''Alice''\<rparr>"

definition emptySenderIssue :: ParsedIssue where
  "emptySenderIssue =
     \<lparr>id_issue = ''1'', title = ''t'', body = ''b'', labels = [], originalContext = Some ''q'',
      sender = Some []\<rparr>"

text \<open>The page after \<^verbatim>\<open>hi\<close> was typed as the subject, and after Generate was clicked then.\<close>

definition typedState :: AppState where
  "typedState =
     \<lparr>emailContent = \<lparr>subject = ''hi'', body_email = []\<rparr>, issues = [], status = IDLE,
      errorMsg = None\<rparr>"

definition analyzingSystem :: System where
  "analyzingSystem = \<lparr>app = typedState\<lparr>status := ANALYZING\<rparr>, pending = 1\<rparr>"

text \<open>A page whose subject is two spaces.\<close>

definition blankState :: AppState where
  "blankState =
     \<lparr>emailContent = \<lparr>subject = ''  '', body_email = []\<rparr>, issues = [], status = IDLE,
      errorMsg = None\<rparr>"


section \<open>Escaping\<close>

lemma replaceAll_Nil: "replaceAll c r [] = []"
  by (simp add: replaceAll_def)

lemma replaceAll_Cons:
  "replaceAll c r (x # xs) = (if x = c then r else [x]) @ replaceAll c r xs"
  by (simp add: replaceAll_def)

lemma replaceAll_append: "replaceAll c r (xs @ ys) = replaceAll c r xs @ replaceAll c r ys"
  by (simp add: replaceAll_def)

text \<open>
  The backslashes are doubled first, so the backslashes that the later replacements insert
  are not doubled again, and no later replacement looks for a backslash.
\<close>

lemma replacement_chain:
  "replaceAll DOLLAR [BACKSLASH, DOLLAR]
     (replaceAll BACKTICK [BACKSLASH, BACKTICK]
       (replaceAll DQUOTE [BACKSLASH, DQUOTE]
         (replaceAll BACKSLASH [BACKSLASH, BACKSLASH] s))) = concat (map escape_char s)"
  by (induction s)
     (simp_all add: replaceAll_Nil replaceAll_Cons replaceAll_append escape_char_def)

lemma escapeForShell_charwise: "escapeForShell s = concat (map escape_char s)"
  by (simp add: escapeForShell_def replacement_chain)

lemma escape_char_cases:
  "escape_char c =
     (if c \<in> {BACKSLASH, DQUOTE, BACKTICK, DOLLAR} then [BACKSLASH, c] else [c])"
  by (simp add: escape_char_def)

text \<open>
  Claim C8. For every input string, \<^verbatim>\<open>escapeForShell\<close> returns the character-wise image of
  the string under the map that sends a backslash to two backslashes, a double quote to
  backslash and double quote, a backtick to backslash and backtick, a dollar sign to backslash
  and dollar sign, and every other character to itself; no character is escaped twice, and
  the empty string is mapped to the empty string.
\<close>

theorem escapeForShell_is_charwise_image:
  "escapeForShell s =
     concat (map (\<lambda>c. if c \<in> {BACKSLASH, DQUOTE, BACKTICK, DOLLAR} then [BACKSLASH, c] else [c]) s) \<and>
   escapeForShell s = concat (map escape_char s) \<and>
   escape_char BACKSLASH = [BACKSLASH, BACKSLASH] \<and>
   escape_char DQUOTE = [BACKSLASH, DQUOTE] \<and>
   escape_char BACKTICK = [BACKSLASH, BACKTICK] \<and>
   escape_char DOLLAR = [BACKSLASH, DOLLAR] \<and>
   escapeForShell [] = []"
proof -
  have "escape_char = (\<lambda>c. if c \<in> {BACKSLASH, DQUOTE, BACKTICK, DOLLAR} then [BACKSLASH, c] else [c])"
    by (rule ext) (rule escape_char_cases)
  then have "escapeForShell s =
     concat (map (\<lambda>c. if c \<in> {BACKSLASH, DQUOTE, BACKTICK, DOLLAR} then [BACKSLASH, c] else [c]) s)"
    using escapeForShell_charwise [of s] by simp
  moreover have "escapeForShell [] = []"
    by (simp add: escapeForShell_def)
  ultimately show ?thesis
    by (simp add: escapeForShell_charwise escape_char_def)
qed


section \<open>The form of the commands\<close>

lemma join_labelFlag: "join '' '' (map labelFlag ls) = label_flags ls"
  by (induction ls rule: label_flags.induct) (simp_all add: labelFlag_def)

lemma generateCommand_form:
  "generateCommand i =
     command_form (generateCommand_safeTitle i) (generateCommand_safeBody i) (labels i)"
  by (simp add: generateCommand_def Let_def command_form_def join_labelFlag)

lemma copyAllCommand_form:
  "copyAllCommand i = command_form (escapeForShell (title i)) (escapeForShell (body i)) (labels i)"
  by (simp add: copyAllCommand_def Let_def command_form_def join_labelFlag)

lemma copyAllCommands_form:
  "copyAllCommands st =
     join ''\<newline>''
       (map (\<lambda>i. command_form (escaped (title i)) (escaped (body i)) (labels i)) (issues st))"
proof -
  have m: "map copyAllCommand (issues st) =
        map (\<lambda>i. command_form (escaped (title i)) (escaped (body i)) (labels i)) (issues st)"
    by (simp add: copyAllCommand_form escaped_def escapeForShell_charwise)
  show ?thesis
    unfolding copyAllCommands_def m by simp
qed

text \<open>
  Claim C5 says that every generated command has the form
  \<^verbatim>\<open>gh issue create --title "T" --body "B" \<close> followed by one \<^verbatim>\<open>--label "l"\<close> flag for each label,
  the flags joined by single spaces in the order of the label list, with the escaped title for
  \<open>T\<close> and the escaped body for \<open>B\<close>. The copied text is such commands joined by newlines
  (lemma \<open>copyAllCommands_form\<close>). The preview command has the fixed text and the flags, and
  fails on \<open>T\<close>: \<^verbatim>\<open>generateCommand\<close> replaces double quotes only, so for the title \<^verbatim>\<open>$HOME\<close>
  it embeds the title as it is, where \<^verbatim>\<open>copyAllCommands\<close> embeds it with the dollar sign
  escaped.
\<close>

theorem preview_command_embeds_raw_title:
  "generateCommand homeIssue = command_form ''$HOME'' ''x'' [''bug''] \<and>
   copyAllCommand homeIssue = command_form (BACKSLASH # ''$HOME'') ''x'' [''bug''] \<and>
   command_form (escaped (title homeIssue)) (escaped (body homeIssue)) (labels homeIssue) =
     command_form (BACKSLASH # ''$HOME'') ''x'' [''bug''] \<and>
   generateCommand homeIssue \<noteq>
     command_form (escaped (title homeIssue)) (escaped (body homeIssue)) (labels homeIssue)"
  by (simp add: generateCommand_form copyAllCommand_form homeIssue_def
      generateCommand_safeTitle_def generateCommand_safeBody_def escapeForShell_def
      replaceAll_def command_form_def escaped_def escape_char_def)

text \<open>
  Claim C1, as stated, fails. For an issue whose title and only label are a dollar sign, the
  preview command embeds the title as it is, and both commands embed the label as it is: neither
  is the command with every embedded string escaped.
\<close>

theorem commands_embed_unescaped_strings:
  "generateCommand dollarIssue = command_form ''$'' [] [''$''] \<and>
   copyAllCommand dollarIssue = command_form [BACKSLASH, DOLLAR] [] [''$''] \<and>
   generateCommand dollarIssue \<noteq>
     command_form (escaped (title dollarIssue)) (escaped (body dollarIssue))
       (map escaped (labels dollarIssue)) \<and>
   copyAllCommand dollarIssue \<noteq>
     command_form (escaped (title dollarIssue)) (escaped (body dollarIssue))
       (map escaped (labels dollarIssue))"
  by (simp add: generateCommand_form copyAllCommand_form dollarIssue_def
      generateCommand_safeTitle_def generateCommand_safeBody_def escapeForShell_def
      replaceAll_def command_form_def escaped_def escape_char_def)

text \<open>
  Claim C1, amended. In the copy-all command the title and the body of every issue are
  embedded with each backslash, double quote, backtick and dollar sign preceded by a backslash;
  the labels are embedded as they are, without escaping, in the copy-all command and in the
  preview command.
\<close>

theorem copyAll_escapes_title_and_body:
  "copyAllCommand i = command_form (escaped (title i)) (escaped (body i)) (labels i) \<and>
   (\<exists>t b. generateCommand i = command_form t b (labels i))"
proof
  show "copyAllCommand i = command_form (escaped (title i)) (escaped (body i)) (labels i)"
    by (simp add: copyAllCommand_form escaped_def escapeForShell_charwise)
  show "\<exists>t b. generateCommand i = command_form t b (labels i)"
    using generateCommand_form [of i] by blast
qed


section \<open>Processing the raw issues\<close>

lemma includes_str_sublist: "includes_str s t \<longleftrightarrow> sublist t s"
  by (induction s) (simp_all add: sublist_Cons_right)

lemma toLowerCase_bug: "toLowerCase ''bug'' = ''bug''"
  by (simp add: toLowerCase_def toLowerChar_def)

lemma toLowerCase_feature: "toLowerCase ''feature'' = ''feature''"
  by (simp add: toLowerCase_def toLowerChar_def)

lemma toLowerCase_enhancement: "toLowerCase ''enhancement'' = ''enhancement''"
  by (simp add: toLowerCase_def toLowerChar_def)

lemma processIssue_title_eq:
  "title (processIssue i) = trim (title_prefix (labels i) @ title i)"
  by (simp add: processIssue_def Let_def title_prefix_def contains_ci_def list_ex_iff
      includes_str_sublist toLowerCase_bug toLowerCase_feature toLowerCase_enhancement)

lemma trimEnd_id: "s \<noteq> [] \<Longrightarrow> \<not> isWhiteSpace (last s) \<Longrightarrow> trimEnd s = s"
  by (cases s rule: rev_cases) (simp_all add: trimEnd_def)

lemma trimStart_Cons: "\<not> isWhiteSpace c \<Longrightarrow> trimStart (c # s) = c # s"
  by (simp add: trimStart_def)

lemma trim_keeps:
  "\<not> isWhiteSpace c \<Longrightarrow> t \<noteq> [] \<Longrightarrow> \<not> isWhiteSpace (last t) \<Longrightarrow>
   trim ((c # p) @ t) = (c # p) @ t"
  by (simp add: trim_def trimStart_Cons trimEnd_id)

lemma title_prefix_cases:
  "title_prefix ls = ''[Bug] '' \<or> title_prefix ls = ''[Feature] '' \<or> title_prefix ls = []"
  by (simp add: title_prefix_def)

lemma bracket_not_ws: "\<not> isWhiteSpace CHR ''[''"
  by (simp add: isWhiteSpace_def)

lemma processIssue_title_kept:
  assumes "title i \<noteq> []" "\<not> isWhiteSpace (last (title i))" "title_prefix (labels i) \<noteq> []"
  shows "title (processIssue i) = title_prefix (labels i) @ title i"
proof -
  from title_prefix_cases [of "labels i"] assms(3)
  obtain p where p: "title_prefix (labels i) = CHR ''['' # p" by auto
  show ?thesis
    unfolding processIssue_title_eq p
    using trim_keeps [OF bracket_not_ws assms(1) assms(2), of p] by simp
qed

lemma toLowerCase_Bug: "toLowerCase ''Bug'' = ''bug''"
  by code_simp

lemma title_prefix_Bug: "title_prefix [''Bug''] = ''[Bug] ''"
  by (simp add: title_prefix_def contains_ci_def includes_str_sublist [symmetric]
      toLowerCase_Bug toLowerCase_bug)

text \<open>
  Claim C2, as stated, fails. For an issue with the label \<^verbatim>\<open>bug\<close> and an empty title the new
  title is \<^verbatim>\<open>[Bug]\<close>: the space that ends the prefix is trimmed away, so the result is not the
  prefix followed by the title, and does not start with the prefix.
\<close>

theorem bug_prefix_is_trimmed:
  "labels untitledBug = [''bug''] \<and> contains_ci ''bug'' ''bug'' \<and> title untitledBug = [] \<and>
   title (processIssue untitledBug) = ''[Bug]'' \<and>
   title (processIssue untitledBug) \<noteq> ''[Bug] '' @ title untitledBug \<and>
   \<not> prefix ''[Bug] '' (title (processIssue untitledBug))"
  by (simp add: processIssue_def untitledBug_def Let_def toLowerCase_def toLowerChar_def
      trim_def trimStart_def trimEnd_def isWhiteSpace_def contains_ci_def)

text \<open>
  Claim C2, amended. \<^verbatim>\<open>processParsedIssues\<close> maps every raw issue on its own; the new title
  is the old title with \<^verbatim>\<open>[Bug] \<close> in front if some label contains \<^verbatim>\<open>bug\<close> case-insensitively,
  otherwise with \<^verbatim>\<open>[Feature] \<close> in front if some label contains \<^verbatim>\<open>feature\<close> or \<^verbatim>\<open>enhancement\<close>
  case-insensitively, otherwise with nothing in front, and in all three cases with the
  surrounding white space of the result trimmed. So a title that is not empty and does not end
  in white space comes after its prefix unchanged.
\<close>

theorem processParsedIssues_title:
  "processParsedIssues raw = map processIssue raw \<and>
   title (processIssue i) = trim (title_prefix (labels i) @ title i) \<and>
   (title i \<noteq> [] \<and> \<not> isWhiteSpace (last (title i)) \<and> title_prefix (labels i) \<noteq> [] \<longrightarrow>
      title (processIssue i) = title_prefix (labels i) @ title i)"
  using processIssue_title_kept [of i]
  by (simp add: processParsedIssues_def processIssue_title_eq)

theorem processParsedIssues_title_witness:
  "title (processIssue loginBug) = ''[Bug] Fix login''"
proof -
  have "title loginBug \<noteq> [] \<and> \<not> isWhiteSpace (last (title loginBug)) \<and>
        title_prefix (labels loginBug) \<noteq> []"
    by (simp add: loginBug_def isWhiteSpace_def title_prefix_Bug)
  with processParsedIssues_title [of "[]" loginBug]
  have "title (processIssue loginBug) = title_prefix (labels loginBug) @ title loginBug"
    by blast
  then show ?thesis
    by (simp add: loginBug_def title_prefix_Bug)
qed

lemma contextSeparator_literal:
  "contextSeparator = ''\<newline>\<newline>---\<newline>\<newline>**Original Context:**\<newline>\<newline>> ''"
  by (simp add: contextSeparator_def)

lemma processIssue_body_merged:
  "originalContext i = Some q \<Longrightarrow> q \<noteq> [] \<Longrightarrow>
   body (processIssue i) = sender_prefix (sender i) @ body i @ contextSeparator @ q"
  by (simp add: processIssue_def Let_def sender_prefix_def split: option.splits)

lemma processIssue_body_unchanged:
  "\<not> truthy (originalContext i) \<Longrightarrow> body (processIssue i) = body i"
  by (simp add: processIssue_def Let_def truthy_def split: option.splits)

text \<open>
  Claim C3, as stated, fails. For an issue with an original context whose sender is present
  and is the empty string, not \<^verbatim>\<open>Unknown\<close>, the new body has no sender line: it starts with the
  old body.
\<close>

theorem empty_sender_gets_no_prefix:
  "originalContext emptySenderIssue = Some ''q'' \<and> sender emptySenderIssue = Some [] \<and>
   body (processIssue emptySenderIssue) =
     ''b\<newline>\<newline>---\<newline>\<newline>**Original Context:**\<newline>\<newline>> q'' \<and>
   body (processIssue emptySenderIssue) \<noteq>
     ''From '' @ [] @ '':\<newline>'' @ body emptySenderIssue @
     ''\<newline>\<newline>---\<newline>\<newline>**Original Context:**\<newline>\<newline>> '' @ ''q''"
  by (simp add: processIssue_def emptySenderIssue_def Let_def contextSeparator_def)

text \<open>
  Claim C3, amended. For every raw issue with a non-empty \<^verbatim>\<open>originalContext\<close>, the new body
  is an optional sender line (\<^verbatim>\<open>From \<close>, the sender, a colon and a newline, exactly when the
  sender is present, is not empty and is not \<^verbatim>\<open>Unknown\<close>), followed by the old body, the
  separator and the original context; for an issue without \<^verbatim>\<open>originalContext\<close>, or with an
  empty one, the body is unchanged.
\<close>

theorem processIssue_body:
  "(\<forall>q. originalContext i = Some q \<and> q \<noteq> [] \<longrightarrow>
      body (processIssue i) =
        sender_prefix (sender i) @ body i @
        ''\<newline>\<newline>---\<newline>\<newline>**Original Context:**\<newline>\<newline>> '' @ q) \<and>
   (originalContext i = None \<longrightarrow> body (processIssue i) = body i) \<and>
   (originalContext i = Some [] \<longrightarrow> body (processIssue i) = body i) \<and>
   (\<forall>n. sender_prefix (Some n) =
      (if n \<noteq> [] \<and> n \<noteq> ''Unknown'' then ''From '' @ n @ '':\<newline>'' else [])) \<and>
   sender_prefix None = []"
  using processIssue_body_merged [of i] processIssue_body_unchanged [of i]
  by (simp add: contextSeparator_literal truthy_def sender_prefix_def)

theorem processIssue_body_witness:
  "body (processIssue loginBug) =
     ''From Alice:\<newline>b\<newline>\<newline>---\<newline>\<newline>**Original Context:**\<newline>\<newline>> q''"
proof -
  have "originalContext loginBug = Some ''q'' \<and> ''q'' \<noteq> []"
    by (simp add: loginBug_def)
  with processIssue_body [of loginBug]
  have "body (processIssue loginBug) =
        sender_prefix (sender loginBug) @ body loginBug @
        ''\<newline>\<newline>---\<newline>\<newline>**Original Context:**\<newline>\<newline>> '' @ ''q''"
    by blast
  then show ?thesis
    by (simp add: loginBug_def sender_prefix_def)
qed

lemma processIssue_frame:
  "originalContext (processIssue i) = None \<and> id_issue (processIssue i) = id_issue i \<and>
   labels (processIssue i) = labels i \<and> sender (processIssue i) = sender i"
  by (simp add: processIssue_def Let_def)

lemma processIssue_body_idem: "body (processIssue (processIssue i)) = body (processIssue i)"
  using processIssue_body_unchanged [of "processIssue i"]
  by (simp add: processIssue_frame truthy_def)

text \<open>
  Claim C9. For every list of raw issues, \<^verbatim>\<open>processParsedIssues\<close> returns as many issues, and
  each of them has its \<^verbatim>\<open>originalContext\<close> cleared and the \<^verbatim>\<open>id\<close> and the \<^verbatim>\<open>labels\<close> of the raw
  issue at the same position. So processing the result again leaves every body as it is: the
  original context is not appended a second time.
\<close>

theorem processParsedIssues_clears_context:
  "length (processParsedIssues raw) = length raw \<and>
   (\<forall>k < length raw.
      originalContext (processParsedIssues raw ! k) = None \<and>
      id_issue (processParsedIssues raw ! k) = id_issue (raw ! k) \<and>
      labels (processParsedIssues raw ! k) = labels (raw ! k)) \<and>
   map body (processParsedIssues (processParsedIssues raw)) = map body (processParsedIssues raw)"
  by (simp add: processParsedIssues_def processIssue_frame processIssue_body_idem)

theorem processParsedIssues_clears_context_witness:
  "length (processParsedIssues [loginBug]) = 1 \<and>
   originalContext (processParsedIssues [loginBug] ! 0) = None \<and>
   id_issue (processParsedIssues [loginBug] ! 0) = ''7'' \<and>
   labels (processParsedIssues [loginBug] ! 0) = [''Bug''] \<and>
   map body (processParsedIssues (processParsedIssues [loginBug])) =
     map body (processParsedIssues [loginBug])"
proof -
  have "(0::nat) < length [loginBug]" by simp
  with processParsedIssues_clears_context [of "[loginBug]"] show ?thesis
    by (simp add: loginBug_def)
qed


section \<open>The declared types\<close>

lemma issues_conform_to_interface: "conforms i ParsedIssue_interface"
  by (simp add: conforms_def ParsedIssue_interface_def property_def split: option.splits)

lemma ProcessingStatus_exhaustive:
  "(UNIV :: ProcessingStatus set) = {IDLE, ANALYZING, COMPLETE, ERROR}"
proof (rule set_eqI)
  fix x :: ProcessingStatus
  show "x \<in> UNIV \<longleftrightarrow> x \<in> {IDLE, ANALYZING, COMPLETE, ERROR}"
    by (cases x) simp_all
qed

text \<open>
  Claim C7, as stated, fails. The interface declares a field \<^verbatim>\<open>id\<close>, which is not among the
  fields that the claim lists, so the declared fields are not exactly the listed ones.
\<close>

theorem ParsedIssue_declares_id:
  "''id'' \<in> set (field_names ParsedIssue_interface) \<and>
   ''id'' \<notin> {''title'', ''body'', ''labels'', ''originalContext'', ''sender''} \<and>
   set (field_names ParsedIssue_interface) \<noteq>
     {''title'', ''body'', ''labels'', ''originalContext'', ''sender''}"
proof -
  have a: "''id'' \<in> set (field_names ParsedIssue_interface)"
    by (simp add: ParsedIssue_interface_def field_names_def)
  have b: "''id'' \<notin> {''title'', ''body'', ''labels'', ''originalContext'', ''sender''}"
    by simp
  from a b have "set (field_names ParsedIssue_interface) \<noteq>
      {''title'', ''body'', ''labels'', ''originalContext'', ''sender''}"
    by metis
  with a b show ?thesis by blast
qed

text \<open>
  Claim C7, amended. A field \<^verbatim>\<open>sender\<close> left aside, the issue record that the types declare
  contains exactly the fields \<^verbatim>\<open>id\<close>, \<^verbatim>\<open>title\<close> and \<^verbatim>\<open>body\<close> (required strings), \<^verbatim>\<open>labels\<close>
  (a required list of strings) and \<^verbatim>\<open>originalContext\<close> (an optional string), each declared
  once; the status flag has exactly the four states \<^verbatim>\<open>IDLE\<close>, \<^verbatim>\<open>ANALYZING\<close>, \<^verbatim>\<open>COMPLETE\<close>
  and \<^verbatim>\<open>ERROR\<close>.
\<close>

theorem declared_types:
  "filter (\<lambda>d. fst d \<noteq> ''sender'') ParsedIssue_interface =
     [(''id'', TString, False),
      (''title'', TString, False),
      (''body'', TString, False),
      (''labels'', TStringArray, False),
      (''originalContext'', TString, True)] \<and>
   distinct (field_names ParsedIssue_interface) \<and>
   (UNIV :: ProcessingStatus set) = {IDLE, ANALYZING, COMPLETE, ERROR} \<and>
   distinct [IDLE, ANALYZING, COMPLETE, ERROR] \<and>
   map ProcessingStatus_value [IDLE, ANALYZING, COMPLETE, ERROR] =
     [''IDLE'', ''ANALYZING'', ''COMPLETE'', ''ERROR'']"
proof -
  have "filter (\<lambda>d. fst d \<noteq> ''sender'') ParsedIssue_interface =
     [(''id'', TString, False),
      (''title'', TString, False),
      (''body'', TString, False),
      (''labels'', TStringArray, False),
      (''originalContext'', TString, True)]"
    by (simp add: ParsedIssue_interface_def)
  moreover have "distinct (field_names ParsedIssue_interface)"
    by (simp add: ParsedIssue_interface_def field_names_def)
  ultimately show ?thesis
    using ProcessingStatus_exhaustive by simp
qed


section \<open>Generating: errors, blank input, one call at a time\<close>

text \<open>
  Claim C4 holds when the call throws and when it returns issues, and fails when it returns no
  issue: the message is stored, the status becomes \<^verbatim>\<open>IDLE\<close>, and the page, which shows the
  stored message only in the panel of the status \<^verbatim>\<open>ERROR\<close>, shows the empty state and no
  message. The first statement is the run at which it fails; the lemmas after it are the
  general facts.
\<close>

theorem no_data_message_is_not_displayed:
  "parseEmailToIssues (Some ''key'') (Resolved None) parse = Returns [] \<and>
   errorMsg (handleGenerate (Returns []) typedState) =
     Some ''No actionable requests found in the email content.'' \<and>
   status (handleGenerate (Returns []) typedState) = IDLE \<and>
   displayedError (handleGenerate (Returns []) typedState) = None \<and>
   emptyState (render (handleGenerate (Returns []) typedState))"
  by (simp add: parseEmailToIssues_def truthy_def handleGenerate_def handleGenerate_begin_def
      handleGenerate_settled_def typedState_def displayedError_def render_def trim_def
      trimStart_def trimEnd_def isWhiteSpace_def)

lemma handleGenerate_throws_displayed:
  "handleGenerate_begin st \<noteq> None \<Longrightarrow>
   displayedError (handleGenerate Throws st) =
     Some ''Failed to parse email. Please check your API key and try again.''"
  by (auto simp add: handleGenerate_def handleGenerate_settled_def displayedError_def render_def)

lemma handleGenerate_issues_no_error:
  "handleGenerate_begin st \<noteq> None \<Longrightarrow> raw \<noteq> [] \<Longrightarrow>
   displayedError (handleGenerate (Returns raw) st) = None"
  by (auto simp add: handleGenerate_def handleGenerate_settled_def displayedError_def render_def)

lemma handleGenerate_no_data_not_displayed:
  "handleGenerate_begin st \<noteq> None \<Longrightarrow>
   displayedError (handleGenerate (Returns []) st) = None \<and>
   errorMsg (handleGenerate (Returns []) st) =
     Some ''No actionable requests found in the email content.''"
  by (auto simp add: handleGenerate_def handleGenerate_settled_def displayedError_def render_def)

text \<open>
  Claim C10. If the subject and the body of the email are both empty after trimming,
  \<^verbatim>\<open>handleGenerate\<close> returns before it sets anything or calls the service: the issues, the
  status and the error message stay as they were. When such input is not the empty string and
  no analysis is running, the button is enabled all the same, since it tests the untrimmed
  strings, and the click changes nothing and starts no call.
\<close>

theorem handleGenerate_blank_input:
  assumes "trim (subject (emailContent st)) = []"
    and "trim (body_email (emailContent st)) = []"
  shows "handleGenerate_begin st = None \<and> handleGenerate outcome st = st \<and>
         (status st \<noteq> ANALYZING \<and>
          (subject (emailContent st) \<noteq> [] \<or> body_email (emailContent st) \<noteq> []) \<longrightarrow>
            \<not> generateDisabled (render st) \<and>
            fire ClickGenerate \<lparr>app = st, pending = n\<rparr> = Some \<lparr>app = st, pending = n\<rparr>)"
  using assms by (simp add: handleGenerate_begin_def handleGenerate_def render_def)

theorem handleGenerate_blank_input_witness:
  "handleGenerate_begin blankState = None \<and> handleGenerate Throws blankState = blankState \<and>
   \<not> generateDisabled (render blankState) \<and>
   fire ClickGenerate \<lparr>app = blankState, pending = 0\<rparr> = Some \<lparr>app = blankState, pending = 0\<rparr>"
proof -
  have t: "trim (subject (emailContent blankState)) = []"
          "trim (body_email (emailContent blankState)) = []"
    by (simp_all add: blankState_def trim_def trimStart_def trimEnd_def isWhiteSpace_def)
  have e: "status blankState \<noteq> ANALYZING \<and>
           (subject (emailContent blankState) \<noteq> [] \<or> body_email (emailContent blankState) \<noteq> [])"
    by (simp add: blankState_def)
  from handleGenerate_blank_input [OF t, of Throws 0] e show ?thesis
    by blast
qed

lemma inv_initial: "single_call_inv initialSystem"
  by (simp add: single_call_inv_def initialSystem_def initialState_def)

lemma inv_fire:
  assumes "single_call_inv sys" and "fire e sys = Some sys'"
  shows "single_call_inv sys'"
proof (cases e)
  case (ChangeSubject s)
  with assms show ?thesis by (auto simp: single_call_inv_def)
next
  case (ChangeBody s)
  with assms show ?thesis by (auto simp: single_call_inv_def)
next
  case ClickGenerate
  with assms show ?thesis
    by (auto simp: single_call_inv_def render_def handleGenerate_begin_def split: if_splits)
next
  case (CallSettles outcome)
  with assms show ?thesis
    by (cases outcome) (auto simp: single_call_inv_def handleGenerate_settled_def split: if_splits)
next
  case ClickTryAgain
  with assms show ?thesis
    by (auto simp: single_call_inv_def render_def split: if_splits)
next
  case ClickClear
  with assms show ?thesis
    by (auto simp: single_call_inv_def render_def split: if_splits)
next
  case ClickCopyAll
  with assms show ?thesis
    by (auto simp: single_call_inv_def render_def split: if_splits)
next
  case CardLocal
  with assms show ?thesis
    by (auto simp: single_call_inv_def render_def split: if_splits)
next
  case (SaveChanges u)
  with assms show ?thesis
    by (auto simp: single_call_inv_def handleUpdateIssue_def split: if_splits)
next
  case (ClickRemove d)
  with assms show ?thesis
    by (auto simp: single_call_inv_def handleDeleteIssue_def Let_def split: if_splits)
qed

lemma inv_run: "single_call_inv sys \<Longrightarrow> run es sys = Some sys' \<Longrightarrow> single_call_inv sys'"
proof (induction es arbitrary: sys)
  case Nil
  then show ?case by simp
next
  case (Cons e es)
  from Cons.prems(2) obtain mid
    where mid: "fire e sys = Some mid" and rest: "run es mid = Some sys'"
    by (auto split: option.splits)
  from Cons.prems(1) mid have "single_call_inv mid" by (rule inv_fire)
  then show ?case using rest by (rule Cons.IH)
qed

lemma inv_reachable: "reachable sys \<Longrightarrow> single_call_inv sys"
  unfolding reachable_def using inv_initial inv_run by blast

lemma analyzing_no_new_call:
  assumes "status (app sys) = ANALYZING" and "fire e sys = Some sys'"
  shows "pending sys' \<le> pending sys"
  using assms
  by (cases e) (auto simp: render_def split: if_splits option.splits)

lemma run_to_analyzing:
  "run [ChangeSubject ''hi'', ClickGenerate] initialSystem = Some analyzingSystem"
  by (simp add: initialSystem_def initialState_def analyzingSystem_def typedState_def render_def
      handleGenerate_begin_def trim_def trimStart_def trimEnd_def isWhiteSpace_def)

lemma reachable_analyzing: "reachable analyzingSystem"
  unfolding reachable_def using run_to_analyzing by blast

text \<open>
  Claim C6. At most one call of \<^verbatim>\<open>parseEmailToIssues\<close> is unsettled in any reachable state,
  and in a reachable state whose status is \<^verbatim>\<open>ANALYZING\<close> exactly one is, and no step starts
  another.
\<close>

theorem single_outstanding_request:
  assumes "reachable sys"
  shows "pending sys \<le> 1 \<and>
         (status (app sys) = ANALYZING \<longrightarrow>
            pending sys = 1 \<and>
            (\<forall>e sys'. fire e sys = Some sys' \<longrightarrow> \<not> startsCall sys sys'))"
proof -
  from assms have inv: "single_call_inv sys" by (rule inv_reachable)
  have "\<not> startsCall sys sys'"
    if "status (app sys) = ANALYZING" "fire e sys = Some sys'" for e sys'
    using analyzing_no_new_call [OF that] by (simp add: startsCall_def)
  with inv show ?thesis by (auto simp: single_call_inv_def)
qed

theorem single_outstanding_request_witness:
  "reachable analyzingSystem \<and> status (app analyzingSystem) = ANALYZING \<and>
   pending analyzingSystem = 1 \<and>
   fire ClickGenerate analyzingSystem = None \<and>
   fire (CallSettles Throws) analyzingSystem \<noteq> None \<and>
   \<not> startsCall analyzingSystem (the (fire (CallSettles Throws) analyzingSystem))"
proof -
  have st: "status (app analyzingSystem) = ANALYZING"
    by (simp add: analyzingSystem_def)
  have g: "fire ClickGenerate analyzingSystem = None"
    by (simp add: analyzingSystem_def render_def)
  have f: "fire (CallSettles Throws) analyzingSystem \<noteq> None"
    by (simp add: analyzingSystem_def)
  then obtain s' where s': "fire (CallSettles Throws) analyzingSystem = Some s'"
    by blast
  from single_outstanding_request [OF reachable_analyzing] st s'
  have "pending analyzingSystem = 1" "\<not> startsCall analyzingSystem s'"
    by blast+
  with reachable_analyzing st g f s' show ?thesis by simp
qed

end
